theory Spec2Isabelle
  imports Main
begin

section \<open>The carousel widget of \<^verbatim>\<open>src/carousel.ts\<close>\<close>

text \<open>
  The three source files (\<^verbatim>\<open>src/carousel.ts\<close>, \<^verbatim>\<open>src/src/carousel.ts\<close> and
  \<^verbatim>\<open>src/carousel.js\<close>) hold the same class \<^verbatim>\<open>Carousel\<close>; they differ in comments, in the
  visibility of the methods (the second file makes \<^verbatim>\<open>previousSlide\<close>, \<^verbatim>\<open>nextSlide\<close>,
  \<^verbatim>\<open>toggleAutoPlay\<close>, \<^verbatim>\<open>startAutoPlay\<close> and \<^verbatim>\<open>stopAutoPlay\<close> public) and in the
  \<^verbatim>\<open>enableAutoPlay\<close> option of the configuration, which only the first file declares.

  JavaScript numbers are modelled as \<^typ>\<open>int\<close>: \<^verbatim>\<open>currentIndex\<close> starts at \<open>0\<close> and moves
  by one, \<^verbatim>\<open>totalSlides\<close> is the length of a node list. Fractional numbers and NaN are
  outside the model.
\<close>

subsection \<open>The browser window: interval timers\<close>

text \<open>
  \<^verbatim>\<open>window.setInterval\<close> hands out a fresh handle and registers a repeating timer;
  \<^verbatim>\<open>clearInterval\<close> removes the timer with that handle. Every timer of the widget has the
  callback \<^verbatim>\<open>() => this.nextSlide()\<close>, so a timer is recorded by the delay it was given
  and the time of the call that created it.
\<close>

record interval_timer =
  delay :: int
  created :: int

record window =
  timers :: "(nat \<times> interval_timer) list"
  nextHandle :: nat
  now :: int

definition setInterval :: "int \<Rightarrow> window \<Rightarrow> nat \<times> window" where
  "setInterval d wn =
     (nextHandle wn,
      wn\<lparr>timers := timers wn @ [(nextHandle wn, \<lparr>delay = d, created = now wn\<rparr>)],
         nextHandle := Suc (nextHandle wn)\<rparr>)"

definition clearInterval :: "nat \<Rightarrow> window \<Rightarrow> window" where
  "clearInterval h wn = wn\<lparr>timers := filter (\<lambda>p. fst p \<noteq> h) (timers wn)\<rparr>"

definition active :: "window \<Rightarrow> nat list" where
  "active wn = map fst (timers wn)"

subsection \<open>The fields of the class and what the page shows\<close>

record CarouselConfig =
  cfg_autoPlayInterval :: "int option"
  cfg_enableAutoPlay :: "bool option"
  cfg_enableLoop :: "bool option"

record carousel =
  currentIndex :: int
  totalSlides :: int
  autoPlayInterval :: int
  autoPlayTimer :: "nat option"
  isPlaying :: bool
  enableLoop :: bool

datatype icon = PlayIcon | PauseIcon

text \<open>
  The part of the document the class writes to. \<open>indicators\<close> holds, for each
  \<^verbatim>\<open>.indicator\<close> element of the indicator container, whether it has the class
  \<^verbatim>\<open>active\<close>; \<open>buttonText\<close> and \<open>svgIcon\<close> are \<open>None\<close> when the play button has no
  \<^verbatim>\<open>span\<close> or no \<^verbatim>\<open>svg\<close> child. The two counters are kept as the numbers whose
  \<^verbatim>\<open>toString()\<close> the source writes.
\<close>

record dom =
  trackOffset :: int
  indicators :: "bool list"
  currentSlideText :: int
  totalSlidesText :: int
  prevDisabled :: bool
  nextDisabled :: bool
  playingClass :: bool
  buttonText :: "string option"
  svgIcon :: "icon option"

text \<open>
  The whole state an operation can touch. \<open>renders\<close> counts the calls of
  \<^verbatim>\<open>updateCarousel\<close>; \<open>touchStartX\<close> and \<open>touchEndX\<close> are the two variables closed over
  by the touch listeners.
\<close>

record world =
  car :: carousel
  view :: dom
  win :: window
  renders :: nat
  touchStartX :: int
  touchEndX :: int

subsection \<open>Rendering\<close>

definition updateIndicators :: "world \<Rightarrow> world" where
  "updateIndicators w =
     w\<lparr>view := (view w)\<lparr>indicators :=
          map (\<lambda>index. int index = currentIndex (car w))
              [0 ..< length (indicators (view w))]\<rparr>\<rparr>"

definition updateNavigationButtons :: "world \<Rightarrow> world" where
  "updateNavigationButtons w =
     (if \<not> enableLoop (car w)
      then w\<lparr>view := (view w)\<lparr>prevDisabled := (currentIndex (car w) = 0),
                               nextDisabled := (currentIndex (car w) = totalSlides (car w) - 1)\<rparr>\<rparr>
      else w)"

definition updateTotalSlides :: "world \<Rightarrow> world" where
  "updateTotalSlides w = w\<lparr>view := (view w)\<lparr>totalSlidesText := totalSlides (car w)\<rparr>\<rparr>"

definition resetAutoPlay :: "world \<Rightarrow> world" where
  "resetAutoPlay w =
     (let wn = (case autoPlayTimer (car w) of
                  Some h \<Rightarrow> clearInterval h (win w)
                | None \<Rightarrow> win w);
          (h', wn') = setInterval (autoPlayInterval (car w)) wn
      in w\<lparr>car := (car w)\<lparr>autoPlayTimer := Some h'\<rparr>, win := wn'\<rparr>)"

definition updateCarousel :: "world \<Rightarrow> world" where
  "updateCarousel w =
     (let w1 = w\<lparr>view := (view w)\<lparr>trackOffset := - currentIndex (car w) * 100\<rparr>\<rparr>;
          w2 = updateIndicators w1;
          w3 = w2\<lparr>view := (view w2)\<lparr>currentSlideText := currentIndex (car w2) + 1\<rparr>\<rparr>;
          w4 = updateNavigationButtons w3;
          w5 = w4\<lparr>renders := Suc (renders w4)\<rparr>
      in if isPlaying (car w5) then resetAutoPlay w5 else w5)"

subsection \<open>Navigation\<close>

definition previousSlide :: "world \<Rightarrow> world" where
  "previousSlide w =
     updateCarousel
       (if currentIndex (car w) > 0
        then w\<lparr>car := (car w)\<lparr>currentIndex := currentIndex (car w) - 1\<rparr>\<rparr>
        else if enableLoop (car w)
        then w\<lparr>car := (car w)\<lparr>currentIndex := totalSlides (car w) - 1\<rparr>\<rparr>
        else w)"

definition nextSlide :: "world \<Rightarrow> world" where
  "nextSlide w =
     updateCarousel
       (if currentIndex (car w) < totalSlides (car w) - 1
        then w\<lparr>car := (car w)\<lparr>currentIndex := currentIndex (car w) + 1\<rparr>\<rparr>
        else if enableLoop (car w)
        then w\<lparr>car := (car w)\<lparr>currentIndex := 0\<rparr>\<rparr>
        else w)"

definition goToSlide :: "int \<Rightarrow> world \<Rightarrow> world" where
  "goToSlide index w =
     (if index \<ge> 0 \<and> index < totalSlides (car w)
      then updateCarousel (w\<lparr>car := (car w)\<lparr>currentIndex := index\<rparr>\<rparr>)
      else w)"

subsection \<open>Autoplay\<close>

definition startAutoPlay :: "world \<Rightarrow> world" where
  "startAutoPlay w =
     (let (h, wn') = setInterval (autoPlayInterval (car w)) (win w)
      in w\<lparr>car := (car w)\<lparr>isPlaying := True, autoPlayTimer := Some h\<rparr>,
           view := (view w)\<lparr>playingClass := True,
                            buttonText := map_option (\<lambda>_. ''Pause'') (buttonText (view w)),
                            svgIcon := map_option (\<lambda>_. PauseIcon) (svgIcon (view w))\<rparr>,
           win := wn'\<rparr>)"

definition stopAutoPlay :: "world \<Rightarrow> world" where
  "stopAutoPlay w =
     (let w1 = w\<lparr>car := (car w)\<lparr>isPlaying := False\<rparr>,
                 view := (view w)\<lparr>playingClass := False,
                                  buttonText := map_option (\<lambda>_. ''Lecture automatique'')
                                                  (buttonText (view w)),
                                  svgIcon := map_option (\<lambda>_. PlayIcon) (svgIcon (view w))\<rparr>\<rparr>
      in case autoPlayTimer (car w1) of
           Some h \<Rightarrow> w1\<lparr>car := (car w1)\<lparr>autoPlayTimer := None\<rparr>,
                       win := clearInterval h (win w1)\<rparr>
         | None \<Rightarrow> w1)"

definition toggleAutoPlay :: "world \<Rightarrow> world" where
  "toggleAutoPlay w = (if isPlaying (car w) then stopAutoPlay w else startAutoPlay w)"

definition destroy :: "world \<Rightarrow> world" where
  "destroy w = stopAutoPlay w"

definition getCurrentIndex :: "world \<Rightarrow> int" where
  "getCurrentIndex w = currentIndex (car w)"

definition getTotalSlides :: "world \<Rightarrow> int" where
  "getTotalSlides w = totalSlides (car w)"

subsection \<open>Construction\<close>

text \<open>
  What the constructor reads from the document: the selectors of the elements that exist,
  the number of \<^verbatim>\<open>.carousel-slide\<close> elements, and the markup as it is before the script
  runs.
\<close>

record page =
  present :: "string list"
  slideCount :: nat
  markup :: dom

datatype error = ElementNotFound string

definition getElement :: "page \<Rightarrow> string \<Rightarrow> error + unit" where
  "getElement p selector =
     (if selector \<in> set (present p) then Inr () else Inl (ElementNotFound selector))"

text \<open>The lookups of the constructor, in the order of the source; the first miss throws.\<close>

fun getElements :: "page \<Rightarrow> string list \<Rightarrow> error + unit" where
  "getElements p [] = Inr ()"
| "getElements p (selector # rest) =
     (case getElement p selector of
        Inl e \<Rightarrow> Inl e
      | Inr _ \<Rightarrow> getElements p rest)"

definition required :: "string list" where
  "required = [''#carouselTrack'', ''#prevBtn'', ''#nextBtn'', ''#carouselIndicators'',
               ''#currentSlide'', ''#totalSlides'', ''#playPauseBtn'']"

text \<open>
  \<^verbatim>\<open>createIndicators\<close> appends one indicator without the class \<^verbatim>\<open>active\<close> per slide.
  The loop \<^verbatim>\<open>for (let i = 0; i < this.totalSlides; i++)\<close> runs \<open>nat (totalSlides)\<close> times.
\<close>

definition createIndicators :: "world \<Rightarrow> world" where
  "createIndicators w =
     w\<lparr>view := (view w)\<lparr>indicators :=
          indicators (view w) @ replicate (nat (totalSlides (car w))) False\<rparr>\<rparr>"

text \<open>
  \<^verbatim>\<open>attachEventListeners\<close> registers the handlers that \<open>dispatch\<close> below runs; it changes
  none of the fields.
\<close>

definition init :: "world \<Rightarrow> world" where
  "init w = updateTotalSlides (updateCarousel (createIndicators w))"

text \<open>
  \<^verbatim>\<open>config.autoPlayInterval || 3000\<close> takes the default for \<^verbatim>\<open>undefined\<close> and for
  \<open>0\<close>; \<^verbatim>\<open>config.enableLoop !== undefined ? config.enableLoop : true\<close> takes it for
  \<^verbatim>\<open>undefined\<close> only. \<^verbatim>\<open>config.enableAutoPlay\<close> is never read.
\<close>

definition Carousel_new :: "CarouselConfig \<Rightarrow> page \<Rightarrow> window \<Rightarrow> error + world" where
  "Carousel_new config p wn =
     (case getElements p required of
        Inl e \<Rightarrow> Inl e
      | Inr _ \<Rightarrow>
          Inr (init
            \<lparr>car = \<lparr>currentIndex = 0,
                    totalSlides = int (slideCount p),
                    autoPlayInterval =
                      (case cfg_autoPlayInterval config of
                         None \<Rightarrow> 3000
                       | Some v \<Rightarrow> if v = 0 then 3000 else v),
                    autoPlayTimer = None,
                    isPlaying = False,
                    enableLoop =
                      (case cfg_enableLoop config of
                         Some b \<Rightarrow> b
                       | None \<Rightarrow> True)\<rparr>,
             view = markup p,
             win = wn,
             renders = 0,
             touchStartX = 0,
             touchEndX = 0\<rparr>))"

subsection \<open>Events\<close>

text \<open>
  The listeners of \<^verbatim>\<open>attachEventListeners\<close>, \<^verbatim>\<open>addTouchSupport\<close> and
  \<^verbatim>\<open>createIndicators\<close>, and the callback of the interval timers. An indicator has a
  listener only if \<^verbatim>\<open>createIndicators\<close> made it, and a timer fires only while it is
  registered.
\<close>

datatype event =
    ClickPrev
  | ClickNext
  | ClickPlayPause
  | ClickIndicator nat
  | KeyDown string
  | TouchStart int
  | TouchEnd int
  | TimerFires nat

definition swipeThreshold :: int where
  "swipeThreshold = 50"

definition dispatch :: "event \<Rightarrow> world \<Rightarrow> world" where
  "dispatch ev w =
     (case ev of
        ClickPrev \<Rightarrow> previousSlide w
      | ClickNext \<Rightarrow> nextSlide w
      | ClickPlayPause \<Rightarrow> toggleAutoPlay w
      | ClickIndicator i \<Rightarrow> (if int i < totalSlides (car w) then goToSlide (int i) w else w)
      | KeyDown key \<Rightarrow>
          (if key = ''ArrowLeft'' then previousSlide w
           else if key = ''ArrowRight'' then nextSlide w
           else w)
      | TouchStart x \<Rightarrow> w\<lparr>touchStartX := x\<rparr>
      | TouchEnd x \<Rightarrow>
          (let w1 = w\<lparr>touchEndX := x\<rparr>;
               diff = touchStartX w1 - touchEndX w1
           in if \<bar>diff\<bar> > swipeThreshold
              then (if diff > 0 then nextSlide w1 else previousSlide w1)
              else w1)
      | TimerFires h \<Rightarrow> (if h \<in> set (active (win w)) then nextSlide w else w))"

fun dispatch_all :: "event list \<Rightarrow> world \<Rightarrow> world" where
  "dispatch_all [] w = w"
| "dispatch_all (ev # evs) w = dispatch_all evs (dispatch ev w)"

subsection \<open>Sequences of navigation calls\<close>

datatype nav = GoToNext | GoToPrevious

fun navigate :: "nav \<Rightarrow> world \<Rightarrow> world" where
  "navigate GoToNext w = nextSlide w"
| "navigate GoToPrevious w = previousSlide w"

fun navigate_all :: "nav list \<Rightarrow> world \<Rightarrow> world" where
  "navigate_all [] w = w"
| "navigate_all (c # cs) w = navigate_all cs (navigate c w)"

subsection \<open>Predicates on states\<close>

definition in_range :: "world \<Rightarrow> bool" where
  "in_range w \<longleftrightarrow> 0 \<le> currentIndex (car w) \<and> currentIndex (car w) \<le> totalSlides (car w) - 1"

text \<open>
  Handles come from \<open>setInterval\<close> only: the stored handle and the registered ones are
  below the next handle the window will hand out.
\<close>

definition handles_issued :: "world \<Rightarrow> bool" where
  "handles_issued w \<longleftrightarrow>
     list_all (\<lambda>h. h < nextHandle (win w)) (active (win w)) \<and>
     (case autoPlayTimer (car w) of Some h \<Rightarrow> h < nextHandle (win w) | None \<Rightarrow> True)"

text \<open>
  The timer discipline: the registered timers are exactly the stored handle, and a handle
  is stored exactly while the carousel is playing.
\<close>

definition one_timer :: "world \<Rightarrow> bool" where
  "one_timer w \<longleftrightarrow>
     active (win w) = (case autoPlayTimer (car w) of Some h \<Rightarrow> [h] | None \<Rightarrow> []) \<and>
     (isPlaying (car w) \<longleftrightarrow> autoPlayTimer (car w) \<noteq> None)"

text \<open>Time passing between two events: only the clock of the window moves.\<close>

definition elapse :: "int \<Rightarrow> world \<Rightarrow> world" where
  "elapse d w = w\<lparr>win := (win w)\<lparr>now := now (win w) + d\<rparr>\<rparr>"

subsection \<open>Concrete states and pages for the examples\<close>

text \<open>
  A page with every required element and \<open>n\<close> slides, a window with no timer at time
  1000, and a carousel of three slides shown at index \<open>i\<close> with nothing scheduled.
\<close>

definition example_page :: "nat \<Rightarrow> page" where
  "example_page n =
     \<lparr>present = required, slideCount = n,
      markup = \<lparr>trackOffset = 0, indicators = [], currentSlideText = 1, totalSlidesText = 0,
                prevDisabled = False, nextDisabled = False, playingClass = False,
                buttonText = Some ''Lecture automatique'', svgIcon = Some PlayIcon\<rparr>\<rparr>"

definition example_window :: window where
  "example_window = \<lparr>timers = [], nextHandle = 1, now = 1000\<rparr>"

definition example_world :: "bool \<Rightarrow> int \<Rightarrow> world" where
  "example_world loop i =
     \<lparr>car = \<lparr>currentIndex = i, totalSlides = 3, autoPlayInterval = 4000,
             autoPlayTimer = None, isPlaying = False, enableLoop = loop\<rparr>,
      view = \<lparr>trackOffset = - i * 100, indicators = [i = 0, i = 1, i = 2],
              currentSlideText = i + 1, totalSlidesText = 3, prevDisabled = False,
              nextDisabled = False, playingClass = False,
              buttonText = Some ''Lecture automatique'', svgIcon = Some PlayIcon\<rparr>,
      win = example_window,
      renders = 1, touchStartX = 0, touchEndX = 0\<rparr>"

text \<open>The same carousel 1500 ms after autoplay was started from index 0.\<close>

definition playing_world :: world where
  "playing_world = elapse 1500 (startAutoPlay (example_world True 0))"

definition example_config :: "int option \<Rightarrow> bool option \<Rightarrow> bool option \<Rightarrow> CarouselConfig" where
  "example_config i a l = \<lparr>cfg_autoPlayInterval = i, cfg_enableAutoPlay = a, cfg_enableLoop = l\<rparr>"

section \<open>What a render pass changes\<close>

lemma car_updateCarousel:
  "car (updateCarousel w) =
     (car w)\<lparr>autoPlayTimer :=
        (if isPlaying (car w) then Some (nextHandle (win w)) else autoPlayTimer (car w))\<rparr>"
  by (simp add: updateCarousel_def updateIndicators_def updateNavigationButtons_def
      resetAutoPlay_def setInterval_def clearInterval_def Let_def split: option.splits)

lemma win_updateCarousel:
  "win (updateCarousel w) =
     (if isPlaying (car w)
      then snd (setInterval (autoPlayInterval (car w))
                 (case autoPlayTimer (car w) of
                    Some h \<Rightarrow> clearInterval h (win w)
                  | None \<Rightarrow> win w))
      else win w)"
  by (simp add: updateCarousel_def updateIndicators_def updateNavigationButtons_def
      resetAutoPlay_def setInterval_def clearInterval_def Let_def split: option.splits)

lemma renders_updateCarousel: "renders (updateCarousel w) = Suc (renders w)"
  by (simp add: updateCarousel_def updateIndicators_def updateNavigationButtons_def
      resetAutoPlay_def setInterval_def clearInterval_def Let_def split: option.splits)

lemma car_nextSlide:
  "car (nextSlide w) =
     (car w)\<lparr>currentIndex :=
        (if currentIndex (car w) < totalSlides (car w) - 1 then currentIndex (car w) + 1
         else if enableLoop (car w) then 0 else currentIndex (car w)),
       autoPlayTimer :=
        (if isPlaying (car w) then Some (nextHandle (win w)) else autoPlayTimer (car w))\<rparr>"
  by (simp add: nextSlide_def car_updateCarousel)

lemma car_previousSlide:
  "car (previousSlide w) =
     (car w)\<lparr>currentIndex :=
        (if currentIndex (car w) > 0 then currentIndex (car w) - 1
         else if enableLoop (car w) then totalSlides (car w) - 1 else currentIndex (car w)),
       autoPlayTimer :=
        (if isPlaying (car w) then Some (nextHandle (win w)) else autoPlayTimer (car w))\<rparr>"
  by (simp add: previousSlide_def car_updateCarousel)

lemma win_nextSlide: "win (nextSlide w) = win (updateCarousel w)"
  by (simp add: nextSlide_def win_updateCarousel split: option.splits)

lemma win_previousSlide: "win (previousSlide w) = win (updateCarousel w)"
  by (simp add: previousSlide_def win_updateCarousel split: option.splits)

section \<open>The index stays in range\<close>

lemma navigate_in_range:
  "1 \<le> totalSlides (car w) \<Longrightarrow> in_range w \<Longrightarrow>
     in_range (navigate c w) \<and> totalSlides (car (navigate c w)) = totalSlides (car w)"
  by (cases c) (auto simp: in_range_def car_nextSlide car_previousSlide)

lemma navigate_all_in_range_aux:
  "1 \<le> totalSlides (car w) \<Longrightarrow> in_range w \<Longrightarrow>
     in_range (navigate_all cs w) \<and> totalSlides (car (navigate_all cs w)) = totalSlides (car w)"
proof (induction cs arbitrary: w)
  case Nil
  then show ?case by simp
next
  case (Cons c cs)
  from navigate_in_range [OF Cons.prems, of c]
  have step: "in_range (navigate c w)" "totalSlides (car (navigate c w)) = totalSlides (car w)"
    by simp_all
  with Cons.prems(1) have "1 \<le> totalSlides (car (navigate c w))" by simp
  from Cons.IH [OF this step(1)] step(2) show ?case by simp
qed

text \<open>
  C1. With at least one slide and the index within \<open>[0, totalSlides - 1]\<close>, the index is
  within that range after every prefix of any finite sequence of \<^verbatim>\<open>nextSlide\<close> and
  \<^verbatim>\<open>previousSlide\<close> calls, whether looping is enabled or not; the number of slides
  does not change.
\<close>

theorem navigation_keeps_index_in_range:
  assumes "1 \<le> totalSlides (car w)" and "in_range w"
  shows "\<forall>k \<le> length cs.
           in_range (navigate_all (take k cs) w) \<and>
           totalSlides (car (navigate_all (take k cs) w)) = totalSlides (car w)"
  using navigate_all_in_range_aux [OF assms] by blast

theorem navigation_keeps_index_in_range_witness:
  "1 \<le> totalSlides (car (example_world True 2)) \<and> in_range (example_world True 2) \<and>
   in_range (navigate_all [GoToNext, GoToPrevious, GoToPrevious] (example_world True 2)) \<and>
   currentIndex (car (navigate_all [GoToNext, GoToPrevious, GoToPrevious] (example_world True 2))) = 1"
proof -
  have a: "1 \<le> totalSlides (car (example_world True 2))"
    by (simp add: example_world_def)
  have b: "in_range (example_world True 2)"
    by (simp add: example_world_def in_range_def)
  have "in_range (navigate_all (take 3 [GoToNext, GoToPrevious, GoToPrevious]) (example_world True 2))"
    using navigation_keeps_index_in_range [OF a b, rule_format, of 3 "[GoToNext, GoToPrevious, GoToPrevious]"]
    by simp
  moreover have "currentIndex (car (navigate_all [GoToNext, GoToPrevious, GoToPrevious] (example_world True 2))) = 1"
    by (simp add: car_nextSlide car_previousSlide example_world_def)
  ultimately show ?thesis using a b by simp
qed

section \<open>Single navigation steps\<close>

text \<open>
  C3. \<^verbatim>\<open>nextSlide\<close>: below the last slide the index grows by one; otherwise it becomes
  \<open>0\<close> when looping is enabled and stays as it is when looping is disabled. With three
  slides, at index 2, looping gives index 0 and no looping leaves index 2.
\<close>

theorem nextSlide_index:
  "currentIndex (car (nextSlide w)) =
     (if currentIndex (car w) < totalSlides (car w) - 1 then currentIndex (car w) + 1
      else if enableLoop (car w) then 0
      else currentIndex (car w))
   \<and> (totalSlides (car w) = 3 \<and> currentIndex (car w) = 2 \<and> enableLoop (car w)
        \<longrightarrow> currentIndex (car (nextSlide w)) = 0)
   \<and> (totalSlides (car w) = 3 \<and> currentIndex (car w) = 2 \<and> \<not> enableLoop (car w)
        \<longrightarrow> currentIndex (car (nextSlide w)) = 2)"
  by (simp add: car_nextSlide)

theorem nextSlide_index_witness:
  "totalSlides (car (example_world True 2)) = 3 \<and> currentIndex (car (example_world True 2)) = 2
   \<and> enableLoop (car (example_world True 2))
   \<and> currentIndex (car (nextSlide (example_world True 2))) = 0
   \<and> totalSlides (car (example_world False 2)) = 3
   \<and> currentIndex (car (example_world False 2)) = 2
   \<and> \<not> enableLoop (car (example_world False 2))
   \<and> currentIndex (car (nextSlide (example_world False 2))) = 2
   \<and> currentIndex (car (nextSlide (example_world False 0))) = 1"
proof -
  have t: "totalSlides (car (example_world b i)) = 3" "currentIndex (car (example_world b i)) = i"
    "enableLoop (car (example_world b i)) = b" for b i
    by (simp_all add: example_world_def)
  show ?thesis
    using nextSlide_index [of "example_world True 2"] nextSlide_index [of "example_world False 2"]
      nextSlide_index [of "example_world False 0"]
    by (simp add: t)
qed

text \<open>
  C4. \<^verbatim>\<open>previousSlide\<close>: above the first slide the index shrinks by one; otherwise it
  becomes \<open>totalSlides - 1\<close> when looping is enabled and stays as it is when looping is
  disabled. With three slides, at index 0, looping gives index 2 and no looping leaves
  index 0.
\<close>

theorem previousSlide_index:
  "currentIndex (car (previousSlide w)) =
     (if currentIndex (car w) > 0 then currentIndex (car w) - 1
      else if enableLoop (car w) then totalSlides (car w) - 1
      else currentIndex (car w))
   \<and> (totalSlides (car w) = 3 \<and> currentIndex (car w) = 0 \<and> enableLoop (car w)
        \<longrightarrow> currentIndex (car (previousSlide w)) = 2)
   \<and> (totalSlides (car w) = 3 \<and> currentIndex (car w) = 0 \<and> \<not> enableLoop (car w)
        \<longrightarrow> currentIndex (car (previousSlide w)) = 0)"
  by (simp add: car_previousSlide)

theorem previousSlide_index_witness:
  "totalSlides (car (example_world True 0)) = 3 \<and> currentIndex (car (example_world True 0)) = 0
   \<and> enableLoop (car (example_world True 0))
   \<and> currentIndex (car (previousSlide (example_world True 0))) = 2
   \<and> totalSlides (car (example_world False 0)) = 3
   \<and> currentIndex (car (example_world False 0)) = 0
   \<and> \<not> enableLoop (car (example_world False 0))
   \<and> currentIndex (car (previousSlide (example_world False 0))) = 0
   \<and> currentIndex (car (previousSlide (example_world False 2))) = 1"
proof -
  have t: "totalSlides (car (example_world b i)) = 3" "currentIndex (car (example_world b i)) = i"
    "enableLoop (car (example_world b i)) = b" for b i
    by (simp_all add: example_world_def)
  show ?thesis
    using previousSlide_index [of "example_world True 0"]
      previousSlide_index [of "example_world False 0"]
      previousSlide_index [of "example_world False 2"]
    by (simp add: t)
qed

text \<open>
  C5. \<^verbatim>\<open>goToSlide(k)\<close> with \<open>0 \<le> k < totalSlides\<close> sets the index to \<open>k\<close> and runs one
  render pass. For any other \<open>k\<close> the call returns the state it was given: no field of
  the carousel, of the page or of the window changes and no render pass runs. The function
  has no error branch: the source throws nowhere in it.
\<close>

theorem goToSlide_in_range_or_ignored:
  "(0 \<le> k \<and> k < totalSlides (car w) \<longrightarrow>
      currentIndex (car (goToSlide k w)) = k \<and> renders (goToSlide k w) = Suc (renders w))
   \<and> (\<not> (0 \<le> k \<and> k < totalSlides (car w)) \<longrightarrow>
      goToSlide k w = w \<and> car (goToSlide k w) = car w \<and> renders (goToSlide k w) = renders w)"
  by (simp add: goToSlide_def car_updateCarousel renders_updateCarousel)

theorem goToSlide_in_range_or_ignored_witness:
  "0 \<le> (2::int) \<and> 2 < totalSlides (car (example_world True 0))
   \<and> currentIndex (car (goToSlide 2 (example_world True 0))) = 2
   \<and> renders (goToSlide 2 (example_world True 0)) = 2
   \<and> \<not> (0 \<le> (3::int) \<and> 3 < totalSlides (car (example_world True 0)))
   \<and> goToSlide 3 (example_world True 0) = example_world True 0
   \<and> \<not> (0 \<le> (-1::int) \<and> -1 < totalSlides (car (example_world True 0)))
   \<and> goToSlide (-1) (example_world True 0) = example_world True 0"
proof -
  have t: "totalSlides (car (example_world True 0)) = 3" "renders (example_world True 0) = 1"
    by (simp_all add: example_world_def)
  show ?thesis
    using goToSlide_in_range_or_ignored [of 2 "example_world True 0"]
      goToSlide_in_range_or_ignored [of 3 "example_world True 0"]
      goToSlide_in_range_or_ignored [of "-1" "example_world True 0"]
    by (simp add: t)
qed

section \<open>Autoplay and its timer\<close>

lemma timers_updateCarousel_playing:
  "isPlaying (car w) \<Longrightarrow>
   timers (win (updateCarousel w)) =
     filter (\<lambda>p. Some (fst p) \<noteq> autoPlayTimer (car w)) (timers (win w))
       @ [(nextHandle (win w), \<lparr>delay = autoPlayInterval (car w), created = now (win w)\<rparr>)]"
  by (simp add: win_updateCarousel setInterval_def clearInterval_def split: option.splits)

lemma win_goToSlide:
  "0 \<le> k \<Longrightarrow> k < totalSlides (car w) \<Longrightarrow> win (goToSlide k w) = win (updateCarousel w)"
  by (simp add: goToSlide_def win_updateCarousel split: option.splits)

lemma car_goToSlide:
  "0 \<le> k \<Longrightarrow> k < totalSlides (car w) \<Longrightarrow>
   car (goToSlide k w) =
     (car w)\<lparr>currentIndex := k,
       autoPlayTimer :=
        (if isPlaying (car w) then Some (nextHandle (win w)) else autoPlayTimer (car w))\<rparr>"
  by (simp add: goToSlide_def car_updateCarousel)

lemma stored_handle_cleared:
  assumes "isPlaying (car w)" and "handles_issued w" and "autoPlayTimer (car w) = Some h"
  shows "h \<notin> set (active (win (updateCarousel w)))"
proof -
  from assms(2,3) have "h \<noteq> nextHandle (win w)"
    by (simp add: handles_issued_def)
  with assms(1,3) show ?thesis
    by (auto simp: active_def timers_updateCarousel_playing)
qed

text \<open>
  C6. While the carousel is playing, \<^verbatim>\<open>nextSlide\<close>, \<^verbatim>\<open>previousSlide\<close> and
  \<^verbatim>\<open>goToSlide\<close> with an index in range reset the timer: the stored handle is no longer
  registered, and a timer with a new handle, the delay \<^verbatim>\<open>autoPlayInterval\<close> and the
  current time as its start is registered and stored. The carousel keeps playing.
\<close>

theorem navigation_resets_autoplay_timer:
  assumes "isPlaying (car w)" and "handles_issued w"
    and "f \<in> {nextSlide, previousSlide} \<union> {goToSlide k |k. 0 \<le> k \<and> k < totalSlides (car w)}"
  shows "autoPlayTimer (car (f w)) = Some (nextHandle (win w))
       \<and> timers (win (f w)) =
           filter (\<lambda>p. Some (fst p) \<noteq> autoPlayTimer (car w)) (timers (win w))
             @ [(nextHandle (win w),
                 \<lparr>delay = autoPlayInterval (car w), created = now (win w)\<rparr>)]
       \<and> (\<forall>h. autoPlayTimer (car w) = Some h \<longrightarrow> h \<notin> set (active (win (f w))))
       \<and> isPlaying (car (f w))"
proof -
  from assms(3) have w: "win (f w) = win (updateCarousel w)"
    by (auto simp: win_nextSlide win_previousSlide win_goToSlide)
  from assms(1,3) have c: "autoPlayTimer (car (f w)) = Some (nextHandle (win w))"
    "isPlaying (car (f w))"
    by (auto simp: car_nextSlide car_previousSlide car_goToSlide)
  from assms(1,2) have "\<forall>h. autoPlayTimer (car w) = Some h \<longrightarrow>
      h \<notin> set (active (win (updateCarousel w)))"
    using stored_handle_cleared by blast
  with w c assms(1) show ?thesis
    by (simp add: timers_updateCarousel_playing)
qed

lemma playing_world_fields:
  "car playing_world =
     \<lparr>currentIndex = 0, totalSlides = 3, autoPlayInterval = 4000,
      autoPlayTimer = Some 1, isPlaying = True, enableLoop = True\<rparr>"
  "win playing_world =
     \<lparr>timers = [(1, \<lparr>delay = 4000, created = 1000\<rparr>)], nextHandle = 2, now = 2500\<rparr>"
  by (simp_all add: playing_world_def elapse_def startAutoPlay_def setInterval_def
      example_world_def example_window_def)

theorem navigation_resets_autoplay_timer_witness:
  "isPlaying (car playing_world) \<and> handles_issued playing_world
   \<and> autoPlayTimer (car playing_world) = Some 1
   \<and> timers (win playing_world) = [(1, \<lparr>delay = 4000, created = 1000\<rparr>)]
   \<and> autoPlayTimer (car (goToSlide 2 playing_world)) = Some 2
   \<and> timers (win (goToSlide 2 playing_world)) = [(2, \<lparr>delay = 4000, created = 2500\<rparr>)]
   \<and> 1 \<notin> set (active (win (goToSlide 2 playing_world)))
   \<and> isPlaying (car (goToSlide 2 playing_world))"
proof -
  have a: "isPlaying (car playing_world)"
    by (simp add: playing_world_fields)
  have b: "handles_issued playing_world"
    by (simp add: handles_issued_def active_def playing_world_fields)
  have c: "goToSlide 2 \<in> {nextSlide, previousSlide}
             \<union> {goToSlide k |k. 0 \<le> k \<and> k < totalSlides (car playing_world)}"
    by (auto simp: playing_world_fields)
  show ?thesis
    using a b navigation_resets_autoplay_timer [OF a b c]
    by (simp add: playing_world_fields)
qed

text \<open>
  C7. After \<^verbatim>\<open>stopAutoPlay\<close>, in any state, the carousel is not playing, no handle is
  stored and the handle that was stored is no longer registered. A second call in a row
  returns the state of the first unchanged.
\<close>

theorem stopAutoPlay_idempotent:
  "\<not> isPlaying (car (stopAutoPlay w))
   \<and> autoPlayTimer (car (stopAutoPlay w)) = None
   \<and> (\<forall>h. autoPlayTimer (car w) = Some h \<longrightarrow> h \<notin> set (active (win (stopAutoPlay w))))
   \<and> stopAutoPlay (stopAutoPlay w) = stopAutoPlay w
   \<and> \<not> isPlaying (car (stopAutoPlay (stopAutoPlay w)))"
proof -
  have 1: "\<not> isPlaying (car (stopAutoPlay w))" "autoPlayTimer (car (stopAutoPlay w)) = None"
    by (simp_all add: stopAutoPlay_def Let_def split: option.splits)
  have 2: "\<forall>h. autoPlayTimer (car w) = Some h \<longrightarrow> h \<notin> set (active (win (stopAutoPlay w)))"
    by (auto simp: stopAutoPlay_def Let_def clearInterval_def active_def)
  have 3: "stopAutoPlay (stopAutoPlay w) = stopAutoPlay w"
    by (cases "autoPlayTimer (car w)")
       (simp_all add: stopAutoPlay_def Let_def option.map_comp comp_def)
  from 1 2 3 show ?thesis by simp
qed

theorem stopAutoPlay_idempotent_witness:
  "autoPlayTimer (car playing_world) = Some 1
   \<and> active (win playing_world) = [1]
   \<and> \<not> isPlaying (car (stopAutoPlay playing_world))
   \<and> autoPlayTimer (car (stopAutoPlay playing_world)) = None
   \<and> 1 \<notin> set (active (win (stopAutoPlay playing_world)))
   \<and> stopAutoPlay (stopAutoPlay playing_world) = stopAutoPlay playing_world
   \<and> stopAutoPlay (stopAutoPlay (example_world False 1)) = stopAutoPlay (example_world False 1)
   \<and> \<not> isPlaying (car (stopAutoPlay (stopAutoPlay (example_world False 1))))"
  using stopAutoPlay_idempotent [of playing_world]
    stopAutoPlay_idempotent [of "example_world False 1"]
  by (simp add: playing_world_fields active_def)

section \<open>Construction\<close>

lemma getElements_all_present: "set ss \<subseteq> set (present p) \<Longrightarrow> getElements p ss = Inr ()"
  by (induction ss) (simp_all add: getElement_def)

lemma car_init:
  "car (init w) =
     (car w)\<lparr>autoPlayTimer :=
        (if isPlaying (car w) then Some (nextHandle (win w)) else autoPlayTimer (car w))\<rparr>"
  by (simp add: init_def updateTotalSlides_def createIndicators_def car_updateCarousel)

lemma win_init: "\<not> isPlaying (car w) \<Longrightarrow> win (init w) = win w"
  by (simp add: init_def updateTotalSlides_def createIndicators_def win_updateCarousel)

lemma Carousel_new_fields:
  assumes "Carousel_new config p wn = Inr w"
  shows "car w =
           \<lparr>currentIndex = 0,
            totalSlides = int (slideCount p),
            autoPlayInterval =
              (case cfg_autoPlayInterval config of
                 None \<Rightarrow> 3000
               | Some v \<Rightarrow> if v = 0 then 3000 else v),
            autoPlayTimer = None,
            isPlaying = False,
            enableLoop = (case cfg_enableLoop config of Some b \<Rightarrow> b | None \<Rightarrow> True)\<rparr>"
    and "win w = wn"
  using assms
  by (auto simp: Carousel_new_def car_init win_init split: sum.splits)

lemma Carousel_new_example_page: "\<exists>w. Carousel_new config (example_page n) wn = Inr w"
  by (simp add: Carousel_new_def example_page_def getElements_all_present)

lemma Carousel_new_example_projr:
  "Carousel_new config (example_page n) wn = Inr (projr (Carousel_new config (example_page n) wn))"
  using Carousel_new_example_page [of config n wn] by auto

text \<open>
  C8. When construction succeeds, \<^verbatim>\<open>autoPlayInterval\<close> is 3000 if the option is absent
  and \<^verbatim>\<open>enableLoop\<close> is true if the option is absent; the carousel is not playing, no
  handle is stored and the window's timers are as they were. The \<^verbatim>\<open>enableAutoPlay\<close>
  option has no effect: with any value for it the constructor returns the same state.
\<close>

theorem construction_defaults_and_no_autoplay:
  assumes "Carousel_new config p wn = Inr w"
  shows "(cfg_autoPlayInterval config = None \<longrightarrow> autoPlayInterval (car w) = 3000)
       \<and> (cfg_enableLoop config = None \<longrightarrow> enableLoop (car w))
       \<and> \<not> isPlaying (car w) \<and> autoPlayTimer (car w) = None \<and> win w = wn
       \<and> Carousel_new (config\<lparr>cfg_enableAutoPlay := a\<rparr>) p wn = Inr w"
proof -
  have "Carousel_new (config\<lparr>cfg_enableAutoPlay := a\<rparr>) p wn = Carousel_new config p wn"
    by (simp add: Carousel_new_def split: sum.splits)
  with assms Carousel_new_fields [OF assms] show ?thesis
    by auto
qed

theorem construction_defaults_and_no_autoplay_witness:
  "Carousel_new (example_config None (Some True) None) (example_page 3) example_window
     = Inr (projr (Carousel_new (example_config None (Some True) None) (example_page 3)
                     example_window))
   \<and> cfg_autoPlayInterval (example_config None (Some True) None) = None
   \<and> cfg_enableLoop (example_config None (Some True) None) = None
   \<and> autoPlayInterval (car (projr (Carousel_new (example_config None (Some True) None)
        (example_page 3) example_window))) = 3000
   \<and> enableLoop (car (projr (Carousel_new (example_config None (Some True) None)
        (example_page 3) example_window)))
   \<and> \<not> isPlaying (car (projr (Carousel_new (example_config None (Some True) None)
        (example_page 3) example_window)))
   \<and> timers (win (projr (Carousel_new (example_config None (Some True) None)
        (example_page 3) example_window))) = []"
proof -
  have a: "Carousel_new (example_config None (Some True) None) (example_page 3) example_window
     = Inr (projr (Carousel_new (example_config None (Some True) None) (example_page 3)
                     example_window))"
    by (rule Carousel_new_example_projr)
  have b: "cfg_autoPlayInterval (example_config None (Some True) None) = None"
    "cfg_enableLoop (example_config None (Some True) None) = None"
    by (simp_all add: example_config_def)
  from construction_defaults_and_no_autoplay [OF a] a b show ?thesis
    by (simp add: example_window_def)
qed

text \<open>
  C9. The default of \<^verbatim>\<open>autoPlayInterval\<close> is taken for \<open>0\<close> as for an absent option,
  and every other number is stored as given, a negative one too, so that the stored
  interval is then not positive.
\<close>

theorem construction_interval_zero_and_negative:
  assumes "Carousel_new config p wn = Inr w"
  shows "(cfg_autoPlayInterval config = Some 0 \<longrightarrow> autoPlayInterval (car w) = 3000)
       \<and> (\<forall>v. cfg_autoPlayInterval config = Some v \<and> v \<noteq> 0 \<longrightarrow> autoPlayInterval (car w) = v)
       \<and> (\<forall>v. cfg_autoPlayInterval config = Some v \<and> v < 0 \<longrightarrow> \<not> 0 < autoPlayInterval (car w))
       \<and> Carousel_new (config\<lparr>cfg_autoPlayInterval := Some 0\<rparr>) p wn
           = Carousel_new (config\<lparr>cfg_autoPlayInterval := None\<rparr>) p wn"
proof -
  have "Carousel_new (config\<lparr>cfg_autoPlayInterval := Some 0\<rparr>) p wn
          = Carousel_new (config\<lparr>cfg_autoPlayInterval := None\<rparr>) p wn"
    by (simp add: Carousel_new_def split: sum.splits)
  with Carousel_new_fields(1) [OF assms] show ?thesis
    by auto
qed

theorem construction_interval_zero_and_negative_witness:
  "Carousel_new (example_config (Some 0) None None) (example_page 3) example_window
     = Inr (projr (Carousel_new (example_config (Some 0) None None) (example_page 3)
                     example_window))
   \<and> autoPlayInterval (car (projr (Carousel_new (example_config (Some 0) None None)
        (example_page 3) example_window))) = 3000
   \<and> Carousel_new (example_config (Some (- 5)) None None) (example_page 3) example_window
     = Inr (projr (Carousel_new (example_config (Some (- 5)) None None) (example_page 3)
                     example_window))
   \<and> autoPlayInterval (car (projr (Carousel_new (example_config (Some (- 5)) None None)
        (example_page 3) example_window))) = - 5"
proof -
  have a: "Carousel_new (example_config (Some 0) None None) (example_page 3) example_window
     = Inr (projr (Carousel_new (example_config (Some 0) None None) (example_page 3)
                     example_window))"
    by (rule Carousel_new_example_projr)
  have b: "Carousel_new (example_config (Some (- 5)) None None) (example_page 3) example_window
     = Inr (projr (Carousel_new (example_config (Some (- 5)) None None) (example_page 3)
                     example_window))"
    by (rule Carousel_new_example_projr)
  have c: "cfg_autoPlayInterval (example_config i x l) = i" for i x l
    by (simp add: example_config_def)
  from construction_interval_zero_and_negative [OF a]
    construction_interval_zero_and_negative [OF b] a b
  show ?thesis
    by (simp add: c)
qed

section \<open>A carousel without slides\<close>

text \<open>
  C10. In the state the constructor returns for a page without slides, with looping
  enabled, \<^verbatim>\<open>previousSlide\<close> sets the index to \<open>-1\<close>, which is outside
  \<open>[0, totalSlides - 1]\<close>, and \<^verbatim>\<open>nextSlide\<close> after it sets the index to \<open>0\<close>.
\<close>

theorem zero_slides_previous_then_next:
  assumes "Carousel_new config p wn = Inr w" and "slideCount p = 0" and "enableLoop (car w)"
  shows "totalSlides (car w) = 0 \<and> currentIndex (car w) = 0
       \<and> currentIndex (car (previousSlide w)) = - 1
       \<and> \<not> in_range (previousSlide w)
       \<and> currentIndex (car (nextSlide (previousSlide w))) = 0"
proof -
  from Carousel_new_fields(1) [OF assms(1)] assms(2)
  have w: "totalSlides (car w) = 0" "currentIndex (car w) = 0"
    by simp_all
  with assms(3) show ?thesis
    by (simp add: car_previousSlide car_nextSlide in_range_def)
qed

theorem zero_slides_previous_then_next_witness:
  "Carousel_new (example_config None None None) (example_page 0) example_window
     = Inr (projr (Carousel_new (example_config None None None) (example_page 0)
                     example_window))
   \<and> slideCount (example_page 0) = 0
   \<and> enableLoop (car (projr (Carousel_new (example_config None None None) (example_page 0)
        example_window)))
   \<and> currentIndex (car (previousSlide (projr (Carousel_new (example_config None None None)
        (example_page 0) example_window)))) = - 1
   \<and> currentIndex (car (nextSlide (previousSlide (projr (Carousel_new
        (example_config None None None) (example_page 0) example_window))))) = 0"
proof -
  have a: "Carousel_new (example_config None None None) (example_page 0) example_window
     = Inr (projr (Carousel_new (example_config None None None) (example_page 0)
                     example_window))"
    by (rule Carousel_new_example_projr)
  have b: "slideCount (example_page 0) = 0"
    by (simp add: example_page_def)
  have c: "enableLoop (car (projr (Carousel_new (example_config None None None) (example_page 0)
        example_window)))"
    using Carousel_new_fields(1) [OF a] by (simp add: example_config_def)
  from zero_slides_previous_then_next [OF a b c] a b c show ?thesis
    by simp
qed

section \<open>How many timers are registered\<close>

lemma active_startAutoPlay:
  "active (win (startAutoPlay w)) = active (win w) @ [nextHandle (win w)]"
  by (simp add: startAutoPlay_def setInterval_def active_def)

lemma active_resetAutoPlay:
  "active (win (resetAutoPlay w)) =
     filter (\<lambda>h. Some h \<noteq> autoPlayTimer (car w)) (active (win w)) @ [nextHandle (win w)]"
  by (simp add: resetAutoPlay_def Let_def setInterval_def clearInterval_def active_def
      filter_map comp_def split: option.splits)

text \<open>
  Through the listeners and the timer callback the discipline holds: \<^verbatim>\<open>toggleAutoPlay\<close>
  calls \<^verbatim>\<open>startAutoPlay\<close> only when the carousel is not playing, and then no handle is
  stored.
\<close>

lemma one_timer_index:
  "one_timer (w\<lparr>car := (car w)\<lparr>currentIndex := i\<rparr>\<rparr>) = one_timer w"
  by (simp add: one_timer_def)

lemma one_timer_updateCarousel:
  assumes "one_timer w"
  shows "one_timer (updateCarousel w)"
proof (cases "isPlaying (car w)")
  case False
  with assms show ?thesis
    by (simp add: one_timer_def car_updateCarousel win_updateCarousel)
next
  case True
  with assms obtain h where h: "autoPlayTimer (car w) = Some h" "map fst (timers (win w)) = [h]"
    by (auto simp: one_timer_def active_def)
  from h(2) have "filter (\<lambda>p. fst p \<noteq> h) (timers (win w)) = []"
    by (auto simp: map_eq_Cons_conv)
  with True h show ?thesis
    by (simp add: one_timer_def active_def car_updateCarousel timers_updateCarousel_playing)
qed

lemma one_timer_nextSlide: "one_timer w \<Longrightarrow> one_timer (nextSlide w)"
  by (simp add: nextSlide_def one_timer_updateCarousel one_timer_index)

lemma one_timer_previousSlide: "one_timer w \<Longrightarrow> one_timer (previousSlide w)"
  by (simp add: previousSlide_def one_timer_updateCarousel one_timer_index)

lemma one_timer_goToSlide: "one_timer w \<Longrightarrow> one_timer (goToSlide k w)"
  by (simp add: goToSlide_def one_timer_updateCarousel one_timer_index)

lemma one_timer_toggleAutoPlay:
  assumes "one_timer w"
  shows "one_timer (toggleAutoPlay w)"
proof (cases "isPlaying (car w)")
  case False
  with assms show ?thesis
    by (simp add: toggleAutoPlay_def one_timer_def active_def startAutoPlay_def setInterval_def)
next
  case True
  with assms obtain h where h: "autoPlayTimer (car w) = Some h" "map fst (timers (win w)) = [h]"
    by (auto simp: one_timer_def active_def)
  from h(2) have "filter (\<lambda>p. fst p \<noteq> h) (timers (win w)) = []"
    by (auto simp: map_eq_Cons_conv)
  with True h show ?thesis
    by (simp add: toggleAutoPlay_def one_timer_def active_def stopAutoPlay_def Let_def
        clearInterval_def)
qed

lemma one_timer_dispatch: "one_timer w \<Longrightarrow> one_timer (dispatch ev w)"
proof (cases ev)
  case (TouchEnd x)
  moreover have "one_timer (w\<lparr>touchEndX := x\<rparr>) = one_timer w"
    by (simp add: one_timer_def)
  moreover assume "one_timer w"
  ultimately show ?thesis
    by (simp add: dispatch_def Let_def one_timer_nextSlide one_timer_previousSlide)
next
  case (TouchStart x)
  moreover assume "one_timer w"
  ultimately show ?thesis
    by (simp add: dispatch_def one_timer_def)
qed (simp_all add: dispatch_def one_timer_nextSlide one_timer_previousSlide
      one_timer_goToSlide one_timer_toggleAutoPlay)

lemma one_timer_dispatch_all: "one_timer w \<Longrightarrow> one_timer (dispatch_all evs w)"
  by (induction evs arbitrary: w) (simp_all add: one_timer_dispatch)

lemma one_timer_Carousel_new:
  assumes "Carousel_new config p wn = Inr w" and "timers wn = []"
  shows "one_timer w"
  using Carousel_new_fields [OF assms(1)] assms(2)
  by (simp add: one_timer_def active_def)

lemma events_keep_one_timer:
  assumes "Carousel_new config p wn = Inr w" and "timers wn = []"
  shows "length (active (win (dispatch_all evs w))) \<le> 1"
proof -
  from one_timer_Carousel_new [OF assms] have "one_timer (dispatch_all evs w)"
    by (rule one_timer_dispatch_all)
  then show ?thesis
    by (simp add: one_timer_def split: option.splits)
qed

text \<open>
  Every state reached from construction through the listeners satisfies \<open>handles_issued\<close>,
  provided the window's own timers do at construction.
\<close>

lemma handles_issued_index:
  "handles_issued (w\<lparr>car := (car w)\<lparr>currentIndex := i\<rparr>\<rparr>) = handles_issued w"
  by (simp add: handles_issued_def split: option.splits)

lemma nextHandle_updateCarousel:
  "nextHandle (win (updateCarousel w)) =
     (if isPlaying (car w) then Suc (nextHandle (win w)) else nextHandle (win w))"
  by (simp add: win_updateCarousel setInterval_def clearInterval_def split: option.splits)

lemma handles_issued_updateCarousel:
  assumes "handles_issued w"
  shows "handles_issued (updateCarousel w)"
proof (cases "isPlaying (car w)")
  case False
  with assms show ?thesis
    by (simp add: handles_issued_def car_updateCarousel win_updateCarousel split: option.splits)
next
  case True
  from assms have "\<forall>h \<in> set (map fst (timers (win w))). h < Suc (nextHandle (win w))"
    by (auto simp: handles_issued_def active_def list_all_iff)
  with True show ?thesis
    by (auto simp: handles_issued_def active_def list_all_iff car_updateCarousel
        timers_updateCarousel_playing nextHandle_updateCarousel)
qed

lemma handles_issued_startAutoPlay: "handles_issued w \<Longrightarrow> handles_issued (startAutoPlay w)"
  by (auto simp: handles_issued_def active_def list_all_iff startAutoPlay_def setInterval_def
      less_Suc_eq)

lemma handles_issued_stopAutoPlay: "handles_issued w \<Longrightarrow> handles_issued (stopAutoPlay w)"
  by (auto simp: handles_issued_def active_def list_all_iff stopAutoPlay_def Let_def
      clearInterval_def split: option.splits)

lemma handles_issued_dispatch:
  assumes "handles_issued w"
  shows "handles_issued (dispatch ev w)"
proof -
  have nav: "handles_issued (nextSlide v)" "handles_issued (previousSlide v)"
    "handles_issued (goToSlide k v)" if "handles_issued v" for v k
    using that
    by (simp_all add: nextSlide_def previousSlide_def goToSlide_def
        handles_issued_updateCarousel handles_issued_index)
  have touch: "handles_issued (w\<lparr>touchStartX := x\<rparr>)" "handles_issued (w\<lparr>touchEndX := x\<rparr>)" for x
    using assms by (simp_all add: handles_issued_def split: option.splits)
  show ?thesis
    using assms nav touch
    by (cases ev)
       (simp_all add: dispatch_def Let_def toggleAutoPlay_def handles_issued_startAutoPlay
          handles_issued_stopAutoPlay)
qed

lemma handles_issued_Carousel_new:
  assumes "Carousel_new config p wn = Inr w"
    and "list_all (\<lambda>h. h < nextHandle wn) (active wn)"
  shows "handles_issued w"
  using Carousel_new_fields [OF assms(1)] assms(2)
  by (simp add: handles_issued_def split: option.splits)

text \<open>
  C2. \<^verbatim>\<open>resetAutoPlay\<close> clears the stored handle before it schedules; \<^verbatim>\<open>startAutoPlay\<close>
  schedules without clearing. Called on a carousel that is already playing (the method is
  public in \<^verbatim>\<open>src/src/carousel.ts\<close>), it leaves two timers registered. The handle of the
  first is lost: \<^verbatim>\<open>stopAutoPlay\<close> clears the second only, and the first still advances
  the slides of the stopped carousel when it fires.
\<close>

theorem startAutoPlay_twice_leaks_timer:
  "active (win (startAutoPlay (example_world True 0))) = [1]
   \<and> active (win (startAutoPlay (startAutoPlay (example_world True 0)))) = [1, 2]
   \<and> autoPlayTimer (car (startAutoPlay (startAutoPlay (example_world True 0)))) = Some 2
   \<and> active (win (stopAutoPlay (startAutoPlay (startAutoPlay (example_world True 0))))) = [1]
   \<and> \<not> isPlaying (car (stopAutoPlay (startAutoPlay (startAutoPlay (example_world True 0)))))
   \<and> currentIndex (car (dispatch (TimerFires 1)
        (stopAutoPlay (startAutoPlay (startAutoPlay (example_world True 0)))))) = 1
   \<and> active (win (resetAutoPlay (startAutoPlay (example_world True 0)))) = [2]"
proof -
  have s1: "car (startAutoPlay (example_world True 0)) =
      \<lparr>currentIndex = 0, totalSlides = 3, autoPlayInterval = 4000,
       autoPlayTimer = Some 1, isPlaying = True, enableLoop = True\<rparr>"
    "win (startAutoPlay (example_world True 0)) =
      \<lparr>timers = [(1, \<lparr>delay = 4000, created = 1000\<rparr>)], nextHandle = 2, now = 1000\<rparr>"
    by (simp_all add: startAutoPlay_def setInterval_def example_world_def example_window_def)
  have s2: "car (startAutoPlay (startAutoPlay (example_world True 0))) =
      \<lparr>currentIndex = 0, totalSlides = 3, autoPlayInterval = 4000,
       autoPlayTimer = Some 2, isPlaying = True, enableLoop = True\<rparr>"
    "win (startAutoPlay (startAutoPlay (example_world True 0))) =
      \<lparr>timers = [(1, \<lparr>delay = 4000, created = 1000\<rparr>), (2, \<lparr>delay = 4000, created = 1000\<rparr>)],
       nextHandle = 3, now = 1000\<rparr>"
    by (simp_all add: startAutoPlay_def [of "startAutoPlay (example_world True 0)"]
        setInterval_def s1)
  have s3: "car (stopAutoPlay (startAutoPlay (startAutoPlay (example_world True 0)))) =
      \<lparr>currentIndex = 0, totalSlides = 3, autoPlayInterval = 4000,
       autoPlayTimer = None, isPlaying = False, enableLoop = True\<rparr>"
    "win (stopAutoPlay (startAutoPlay (startAutoPlay (example_world True 0)))) =
      \<lparr>timers = [(1, \<lparr>delay = 4000, created = 1000\<rparr>)], nextHandle = 3, now = 1000\<rparr>"
    by (simp_all add: stopAutoPlay_def Let_def clearInterval_def s2)
  have s4: "currentIndex (car (dispatch (TimerFires 1)
        (stopAutoPlay (startAutoPlay (startAutoPlay (example_world True 0)))))) = 1"
    by (simp add: dispatch_def active_def car_nextSlide s3)
  have a1: "active (win (startAutoPlay (example_world True 0))) = [1]"
    by (simp add: active_def s1)
  have a2: "active (win (startAutoPlay (startAutoPlay (example_world True 0)))) = [1, 2]"
    by (simp add: active_def s2)
  have a3: "active (win (stopAutoPlay (startAutoPlay (startAutoPlay (example_world True 0)))))
              = [1]"
    by (simp add: active_def s3)
  have s5: "active (win (resetAutoPlay (startAutoPlay (example_world True 0)))) = [2]"
    using active_resetAutoPlay [of "startAutoPlay (example_world True 0)"]
    by (simp add: active_def s1)
  from a1 a2 a3 s2(1) s3(1) s4 s5 show ?thesis
    by simp
qed

end
